theory Spec2Isabelle
  imports Main "HOL-Library.Word"
begin

section \<open>Strings\<close>

text \<open>
  A JavaScript string is modelled as a \<^typ>\<open>string\<close>, each \<^typ>\<open>char\<close> standing for one
  code unit, so the alphabet is the first 256 code units. The program only concatenates
  strings, compares them with literals, tests a suffix and trims white space, all of which
  act unit by unit.
\<close>

text \<open>\<^verbatim>\<open>String.prototype.endsWith\<close> with its default end position.\<close>

definition endsWith :: "string \<Rightarrow> string \<Rightarrow> bool" where
  "endsWith s searchString =
     (length searchString \<le> length s \<and>
      drop (length s - length searchString) s = searchString)"

text \<open>
  The white space and line terminator code units of this alphabet that
  \<^verbatim>\<open>String.prototype.trim\<close> strips from both ends: TAB, LF, VT, FF, CR, SP and NBSP.
\<close>

definition isWhiteSpace :: "char \<Rightarrow> bool" where
  "isWhiteSpace c =
     (c = CHR 0x09 \<or> c = CHR 0x0A \<or> c = CHR 0x0B \<or> c = CHR 0x0C \<or> c = CHR 0x0D \<or>
      c = CHR 0x20 \<or> c = CHR 0xA0)"

definition trim :: "string \<Rightarrow> string" where
  "trim s = rev (dropWhile isWhiteSpace (rev (dropWhile isWhiteSpace s)))"

section \<open>JavaScript values\<close>

unbundle bit_operations_syntax

text \<open>
  The values a parsed request body can hold. A number is kept as the 64 bits of its
  IEEE 754 double; an object as its list of own properties, read with \<^const>\<open>map_of\<close>.
\<close>

datatype jsval =
    Undefined
  | Null
  | Bool bool
  | Num "64 word"
  | Str string
  | Arr "jsval list"
  | Obj "(string \<times> jsval) list"

text \<open>
  What a \<^verbatim>\<open>catch\<close> block or the error middleware can receive: a \<^verbatim>\<open>TypeError\<close> of
  the language, the rejection of a provider's promise (with the provider's own detail), an
  \<^verbatim>\<open>Error\<close> built from a message, and a \<^verbatim>\<open>MulterError\<close> with its code.
\<close>

datatype 'e thrown = TypeError | Rejected 'e | Error string | MulterError string

definition isZero :: "64 word \<Rightarrow> bool" where
  "isZero d = (d AND 0x7FFFFFFFFFFFFFFF = 0)"

definition isNaN :: "64 word \<Rightarrow> bool" where
  "isNaN d =
     (d AND 0x7FF0000000000000 = 0x7FF0000000000000 \<and> d AND 0x000FFFFFFFFFFFFF \<noteq> 0)"

text \<open>
  \<^verbatim>\<open>ToBoolean\<close>: \<^verbatim>\<open>undefined\<close>, \<^verbatim>\<open>null\<close>, \<^verbatim>\<open>false\<close>, both zeros,
  \<^verbatim>\<open>NaN\<close> and the empty string are falsy; every array and object is truthy.
\<close>

fun truthy :: "jsval \<Rightarrow> bool" where
  "truthy Undefined = False"
| "truthy Null = False"
| "truthy (Bool b) = b"
| "truthy (Num d) = (\<not> isZero d \<and> \<not> isNaN d)"
| "truthy (Str s) = (s \<noteq> [])"
| "truthy (Arr xs) = True"
| "truthy (Obj kvs) = True"

fun isArray :: "jsval \<Rightarrow> bool" where
  "isArray (Arr xs) = True"
| "isArray v = False"

text \<open>The elements of an array value; the handlers read them only after \<^const>\<open>isArray\<close>.\<close>

fun elements :: "jsval \<Rightarrow> jsval list" where
  "elements (Arr xs) = xs"
| "elements v = []"

text \<open>
  \<^verbatim>\<open>ToString\<close>, as a template literal applies it, and \<^verbatim>\<open>Array.prototype.join\<close>.
  The rendering of a number is the parameter \<open>n2s\<close>. An array converts by joining its
  elements with a comma; \<^verbatim>\<open>join\<close> turns \<^verbatim>\<open>undefined\<close> and \<^verbatim>\<open>null\<close> elements
  into the empty string. A parsed object inherits \<^verbatim>\<open>Object.prototype.toString\<close>, unless
  it has an own property of that name, which is then not callable: the conversion throws
  a \<^verbatim>\<open>TypeError\<close>.
\<close>

fun toString :: "(64 word \<Rightarrow> string) \<Rightarrow> jsval \<Rightarrow> 'e thrown + string"
  and join :: "(64 word \<Rightarrow> string) \<Rightarrow> string \<Rightarrow> jsval list \<Rightarrow> 'e thrown + string"
  and element :: "(64 word \<Rightarrow> string) \<Rightarrow> jsval \<Rightarrow> 'e thrown + string" where
  "toString n2s Undefined = Inr ''undefined''"
| "toString n2s Null = Inr ''null''"
| "toString n2s (Bool b) = Inr (if b then ''true'' else ''false'')"
| "toString n2s (Num d) = Inr (n2s d)"
| "toString n2s (Str s) = Inr s"
| "toString n2s (Arr xs) = join n2s '','' xs"
| "toString n2s (Obj kvs) =
     (case map_of kvs ''toString'' of
        None \<Rightarrow> Inr ''[object Object]''
      | Some m \<Rightarrow> Inl TypeError)"
| "join n2s separator [] = Inr []"
| "join n2s separator [x] = element n2s x"
| "join n2s separator (x # y # ys) =
     (case element n2s x of
        Inl ex \<Rightarrow> Inl ex
      | Inr s \<Rightarrow>
          (case join n2s separator (y # ys) of
             Inl ex \<Rightarrow> Inl ex
           | Inr r \<Rightarrow> Inr (s @ separator @ r)))"
| "element n2s Undefined = Inr []"
| "element n2s Null = Inr []"
| "element n2s (Bool b) = toString n2s (Bool b)"
| "element n2s (Num d) = toString n2s (Num d)"
| "element n2s (Str s) = toString n2s (Str s)"
| "element n2s (Arr xs) = toString n2s (Arr xs)"
| "element n2s (Obj kvs) = toString n2s (Obj kvs)"

text \<open>
  The strings of a list written one after the other with a separator between neighbours:
  what the destination line of one message to several addresses looks like.
\<close>

fun separated :: "string \<Rightarrow> string list \<Rightarrow> string" where
  "separated sep [] = []"
| "separated sep [a] = a"
| "separated sep (a # b # bs) = a @ sep @ separated sep (b # bs)"

text \<open>
  Which values convert without throwing: every value but an object with an own property
  \<^verbatim>\<open>toString\<close>, and an array with such an object among its entries, at any depth.
\<close>

fun converts :: "jsval \<Rightarrow> bool"
  and convertsAll :: "jsval list \<Rightarrow> bool" where
  "converts Undefined = True"
| "converts Null = True"
| "converts (Bool b) = True"
| "converts (Num d) = True"
| "converts (Str s) = True"
| "converts (Arr xs) = convertsAll xs"
| "converts (Obj kvs) = (map_of kvs ''toString'' = None)"
| "convertsAll [] = True"
| "convertsAll (x # xs) = (converts x \<and> convertsAll xs)"

text \<open>
  The string a value that converts stands for, and the strings the entries of an array
  contribute to its joined text: an \<^verbatim>\<open>undefined\<close> or \<^verbatim>\<open>null\<close> entry the empty string,
  any other entry its own string.
\<close>

fun stringOf :: "(64 word \<Rightarrow> string) \<Rightarrow> jsval \<Rightarrow> string"
  and entryStrings :: "(64 word \<Rightarrow> string) \<Rightarrow> jsval list \<Rightarrow> string list" where
  "stringOf n2s Undefined = ''undefined''"
| "stringOf n2s Null = ''null''"
| "stringOf n2s (Bool b) = (if b then ''true'' else ''false'')"
| "stringOf n2s (Num d) = n2s d"
| "stringOf n2s (Str s) = s"
| "stringOf n2s (Arr xs) = separated '','' (entryStrings n2s xs)"
| "stringOf n2s (Obj kvs) = ''[object Object]''"
| "entryStrings n2s [] = []"
| "entryStrings n2s (Undefined # xs) = [] # entryStrings n2s xs"
| "entryStrings n2s (Null # xs) = [] # entryStrings n2s xs"
| "entryStrings n2s (x # xs) = stringOf n2s x # entryStrings n2s xs"

text \<open>
  Reading a property of \<^verbatim>\<open>req.body\<close>, which the body parser leaves as an object: a
  missing key reads as \<^verbatim>\<open>undefined\<close>. The handlers are modelled from the parsed body
  on.
\<close>

definition getField :: "(string \<times> jsval) list \<Rightarrow> string \<Rightarrow> jsval" where
  "getField body key = (case map_of body key of None \<Rightarrow> Undefined | Some v \<Rightarrow> v)"

section \<open>The server\<close>

text \<open>The three variables of \<^verbatim>\<open>process.env\<close> the handlers read; an unset one is \<open>None\<close>.\<close>

record env =
  GEMINI_API_KEY :: "string option"
  EMAIL_USER :: "string option"
  EMAIL_PASS :: "string option"

definition env_truthy :: "string option \<Rightarrow> bool" where
  "env_truthy v = (case v of None \<Rightarrow> False | Some s \<Rightarrow> s \<noteq> [])"

text \<open>What \<^verbatim>\<open>res.status(c).json(v)\<close> sends; \<^verbatim>\<open>res.json(v)\<close> alone sends 200.\<close>

record response =
  statusCode :: nat
  json :: jsval

record mailOptions =
  m_from :: "string option"
  m_to :: string
  subject :: string
  html :: string

text \<open>
  The effects of a handler outside its response, in the order they happen: a call of the
  completion provider (model name and prompt), a call of the mail provider, a line on the
  server's error log.
\<close>

datatype 'e effect =
    GenerateContent string string
  | SendMail mailOptions
  | ConsoleError string "'e thrown"

fun mailCalls :: "'e effect list \<Rightarrow> mailOptions list" where
  "mailCalls [] = []"
| "mailCalls (SendMail opts # es) = opts # mailCalls es"
| "mailCalls (e # es) = mailCalls es"

fun completionCalls :: "'e effect list \<Rightarrow> (string \<times> string) list" where
  "completionCalls [] = []"
| "completionCalls (GenerateContent m p # es) = (m, p) # completionCalls es"
| "completionCalls (e # es) = completionCalls es"

subsection \<open>Route 1: generate summary\<close>

definition prompt_head :: string where
  "prompt_head =
     ''\<newline>Please analyze the following meeting transcript and provide a summary based on the given instruction.\<newline>'' @
     ''\<newline>TRANSCRIPT:\<newline>''"

definition prompt_mid :: string where
  "prompt_mid = ''\<newline>\<newline>INSTRUCTION:\<newline>''"

definition prompt_tail :: string where
  "prompt_tail =
     ''\<newline>\<newline>Please provide a clear, well-structured summary that follows the instruction above.\<newline>''"

definition prompt :: "(64 word \<Rightarrow> string) \<Rightarrow> jsval \<Rightarrow> jsval \<Rightarrow> 'e thrown + string" where
  "prompt n2s transcript instruction =
     (case toString n2s transcript of
        Inl ex \<Rightarrow> Inl ex
      | Inr t \<Rightarrow>
          (case toString n2s instruction of
             Inl ex \<Rightarrow> Inl ex
           | Inr i \<Rightarrow> Inr (prompt_head @ t @ prompt_mid @ i @ prompt_tail)))"

definition generate_summary_catch ::
    "'e thrown \<Rightarrow> 'e effect list \<Rightarrow> response \<times> 'e effect list" where
  "generate_summary_catch ex done =
     (\<lparr>statusCode = 500,
       json = Obj [(''error'', Str ''Failed to generate summary. Please try again.'')]\<rparr>,
      done @ [ConsoleError ''Error generating summary:'' ex])"

text \<open>
  The handler of \<^verbatim>\<open>POST /api/generate-summary\<close>. The completion provider is the
  parameter \<open>generateContent\<close>: from the model name and the prompt to the text of the
  response, or to the provider's failure.
\<close>

definition generate_summary ::
    "(64 word \<Rightarrow> string) \<Rightarrow> env \<Rightarrow> (string \<Rightarrow> string \<Rightarrow> 'e + string) \<Rightarrow>
     (string \<times> jsval) list \<Rightarrow> response \<times> 'e effect list" where
  "generate_summary n2s env generateContent body =
     (let transcript = getField body ''transcript'';
          instruction = getField body ''instruction''
      in
      if \<not> truthy transcript \<or> \<not> truthy instruction then
        (\<lparr>statusCode = 400,
          json = Obj [(''error'', Str ''Transcript and instruction are required'')]\<rparr>, [])
      else if \<not> env_truthy (GEMINI_API_KEY env) then
        (\<lparr>statusCode = 500,
          json = Obj [(''error'', Str ''Gemini API key not configured'')]\<rparr>, [])
      else
        (case prompt n2s transcript instruction of
           Inl ex \<Rightarrow> generate_summary_catch ex []
         | Inr p \<Rightarrow>
             (case generateContent ''gemini-1.5-flash'' p of
                Inl e \<Rightarrow>
                  generate_summary_catch (Rejected e) [GenerateContent ''gemini-1.5-flash'' p]
              | Inr text \<Rightarrow>
                  (\<lparr>statusCode = 200, json = Obj [(''summary'', Str text)]\<rparr>,
                   [GenerateContent ''gemini-1.5-flash'' p]))))"

subsection \<open>Route 2: send email\<close>

definition html_head :: string where
  "html_head =
     ''\<newline>        <div style=\"font-family: Arial, sans-serif; max-width: 600px; margin: 0 auto;\">'' @
     ''\<newline>          <h2 style=\"color: #333;\">Meeting Summary</h2>'' @
     ''\<newline>          <div style=\"background-color: #f9f9f9; padding: 20px; border-radius: 5px; margin: 20px 0;\">'' @
     ''\<newline>            <pre style=\"white-space: pre-wrap; font-family: inherit; margin: 0;\">''"

definition html_tail :: string where
  "html_tail =
     ''</pre>'' @
     ''\<newline>          </div>'' @
     ''\<newline>          <p style=\"color: #666; font-size: 14px;\">'' @
     ''\<newline>            This summary was generated using MangoDesk AI Meeting Summarizer.'' @
     ''\<newline>          </p>'' @
     ''\<newline>        </div>'' @
     ''\<newline>      ''"

text \<open>
  The object literal \<^verbatim>\<open>mailOptions\<close>: its properties are evaluated in order, so a
  failing \<^verbatim>\<open>join\<close> is thrown before the summary is converted.
\<close>

definition build_mailOptions ::
    "(64 word \<Rightarrow> string) \<Rightarrow> env \<Rightarrow> jsval \<Rightarrow> jsval \<Rightarrow> 'e thrown + mailOptions" where
  "build_mailOptions n2s env summary recipients =
     (case join n2s '', '' (elements recipients) of
        Inl ex \<Rightarrow> Inl ex
      | Inr t \<Rightarrow>
          (case toString n2s summary of
             Inl ex \<Rightarrow> Inl ex
           | Inr s \<Rightarrow>
               Inr \<lparr>m_from = EMAIL_USER env, m_to = t,
                    subject = ''Meeting Summary - MangoDesk'',
                    html = html_head @ s @ html_tail\<rparr>))"

definition send_email_catch ::
    "'e thrown \<Rightarrow> 'e effect list \<Rightarrow> response \<times> 'e effect list" where
  "send_email_catch ex done =
     (\<lparr>statusCode = 500,
       json = Obj [(''error'',
         Str ''Failed to send email. Please check your email configuration.'')]\<rparr>,
      done @ [ConsoleError ''Error sending email:'' ex])"

text \<open>
  The handler of \<^verbatim>\<open>POST /api/send-email\<close>. The mail provider is the parameter
  \<open>sendMail\<close>: from the message to the provider's receipt, or to its failure.
\<close>

definition send_email ::
    "(64 word \<Rightarrow> string) \<Rightarrow> env \<Rightarrow> (mailOptions \<Rightarrow> 'e + 'r) \<Rightarrow>
     (string \<times> jsval) list \<Rightarrow> response \<times> 'e effect list" where
  "send_email n2s env sendMail body =
     (let summary = getField body ''summary'';
          recipients = getField body ''recipients''
      in
      if \<not> truthy summary \<or> \<not> truthy recipients \<or> \<not> isArray recipients \<or>
         length (elements recipients) = 0 then
        (\<lparr>statusCode = 400,
          json = Obj [(''error'',
            Str ''Summary and at least one recipient email are required'')]\<rparr>, [])
      else if \<not> env_truthy (EMAIL_USER env) \<or> \<not> env_truthy (EMAIL_PASS env) then
        (\<lparr>statusCode = 500,
          json = Obj [(''error'', Str ''Email configuration not set up'')]\<rparr>, [])
      else
        (case build_mailOptions n2s env summary recipients of
           Inl ex \<Rightarrow> send_email_catch ex []
         | Inr opts \<Rightarrow>
             (case sendMail opts of
                Inl e \<Rightarrow> send_email_catch (Rejected e) [SendMail opts]
              | Inr info \<Rightarrow>
                  (\<lparr>statusCode = 200,
                    json = Obj [(''success'', Bool True),
                                (''message'', Str ''Email sent successfully'')]\<rparr>,
                   [SendMail opts]))))"

subsection \<open>Route 3: upload transcript\<close>

text \<open>A file part of a multipart request, as the upload middleware hands it on.\<close>

record multer_file =
  fieldname :: string
  originalname :: string
  mimetype :: string
  buffer :: "8 word list"

definition fileSize :: nat where
  "fileSize = 5 * 1024 * 1024"

text \<open>
  The \<^verbatim>\<open>fileFilter\<close> option: \<^verbatim>\<open>cb(null, true)\<close> is \<open>Inr True\<close>, \<^verbatim>\<open>cb(err, false)\<close>
  is \<open>Inl err\<close>.
\<close>

definition fileFilter :: "multer_file \<Rightarrow> 'e thrown + bool" where
  "fileFilter file =
     (if mimetype file = ''text/plain'' \<or> mimetype file = ''application/octet-stream''
      then Inr True
      else Inl (Error ''Only .txt files are allowed''))"

text \<open>
  \<^verbatim>\<open>upload.single(name)\<close> on a request with at most one file part: a part with an
  empty file name is skipped; a part under another field name is refused before the filter
  runs; the filter's error, or a part that reaches the size limit, is passed to
  \<^verbatim>\<open>next\<close>; otherwise the part becomes \<^verbatim>\<open>req.file\<close>.
\<close>

definition single :: "string \<Rightarrow> multer_file option \<Rightarrow> 'e thrown + multer_file option" where
  "single name part =
     (case part of
        None \<Rightarrow> Inr None
      | Some f \<Rightarrow>
          if originalname f = [] then Inr None
          else if fieldname f \<noteq> name then Inl (MulterError ''LIMIT_UNEXPECTED_FILE'')
          else
            (case fileFilter f of
               Inl err \<Rightarrow> Inl err
             | Inr accepted \<Rightarrow>
                 if \<not> accepted then Inr None
                 else if fileSize \<le> length (buffer f) then Inl (MulterError ''LIMIT_FILE_SIZE'')
                 else Inr (Some f)))"

text \<open>
  The route's own handler; \<open>utf8\<close> is \<^verbatim>\<open>Buffer.prototype.toString('utf-8')\<close>.
\<close>

definition upload_transcript_handler ::
    "(8 word list \<Rightarrow> string) \<Rightarrow> multer_file option \<Rightarrow> response \<times> 'e effect list" where
  "upload_transcript_handler utf8 req_file =
     (case req_file of
        None \<Rightarrow>
          (\<lparr>statusCode = 400, json = Obj [(''error'', Str ''No file uploaded'')]\<rparr>, [])
      | Some f \<Rightarrow>
          (\<lparr>statusCode = 200, json = Obj [(''transcript'', Str (utf8 (buffer f)))]\<rparr>, []))"

text \<open>The error handling middleware, the only one the application registers.\<close>

definition error_middleware :: "'e thrown \<Rightarrow> response \<times> 'e effect list" where
  "error_middleware err =
     (\<lparr>statusCode = 500, json = Obj [(''error'', Str ''Internal server error'')]\<rparr>,
      [ConsoleError ''Unhandled error:'' err])"

text \<open>
  \<^verbatim>\<open>POST /api/upload-transcript\<close>: the upload middleware, then the handler; an error
  passed to \<^verbatim>\<open>next\<close> skips the handler and reaches the error handling middleware.
\<close>

definition upload_transcript ::
    "(8 word list \<Rightarrow> string) \<Rightarrow> multer_file option \<Rightarrow> response \<times> 'e effect list" where
  "upload_transcript utf8 part =
     (case single ''transcript'' part of
        Inl err \<Rightarrow> error_middleware err
      | Inr req_file \<Rightarrow> upload_transcript_handler utf8 req_file)"

section \<open>The presentation layer\<close>

datatype status_type = success | error | loading

text \<open>
  The status line; its field \<^verbatim>\<open>type\<close> is named \<open>status_type\<close> here, \<open>None\<close> for
  \<^verbatim>\<open>null\<close>.
\<close>

record Status =
  status_type :: "status_type option"
  message :: string

text \<open>The six \<^verbatim>\<open>useState\<close> cells of \<^verbatim>\<open>App\<close>, with their initial values.\<close>

record app_state =
  transcript :: string
  instruction :: string
  summary :: string
  recipients :: "string list"
  recipientInput :: string
  status :: Status

definition initial_state :: app_state where
  "initial_state =
     \<lparr>transcript = [], instruction = [], summary = [], recipients = [],
      recipientInput = [], status = \<lparr>status_type = None, message = []\<rparr>\<rparr>"


text \<open>
  \<^verbatim>\<open>recipients.includes(email)\<close> is list membership; an empty string is falsy.
\<close>

definition addRecipient :: "app_state \<Rightarrow> app_state" where
  "addRecipient st =
     (let email = trim (recipientInput st) in
      if email \<noteq> [] \<and> email \<notin> set (recipients st)
      then st\<lparr>recipients := recipients st @ [email], recipientInput := []\<rparr>
      else st)"


text \<open>
  The key handler of the recipient input: Enter and comma add the candidate, any other
  key leaves the state to the input's own change handler.
\<close>

definition handleRecipientKeyPress :: "string \<Rightarrow> app_state \<Rightarrow> app_state" where
  "handleRecipientKeyPress key st =
     (if key = ''Enter'' \<or> key = '','' then addRecipient st else st)"


text \<open>A browser \<^verbatim>\<open>File\<close>: its declared type and its name.\<close>

record File =
  type :: string
  name :: string

text \<open>
  \<^verbatim>\<open>handleFileUpload\<close> up to its request: with no file chosen nothing happens; a file
  that fails the check sets the error status and sends nothing; any other file sets the
  loading status and is posted (the second component).
\<close>

definition handleFileUpload :: "File option \<Rightarrow> app_state \<Rightarrow> app_state \<times> File option" where
  "handleFileUpload chosen st =
     (case chosen of
        None \<Rightarrow> (st, None)
      | Some file \<Rightarrow>
          if type file \<noteq> ''text/plain'' \<and> \<not> endsWith (name file) ''.txt'' then
            (st\<lparr>status := \<lparr>status_type = Some error, message = ''Please upload a .txt file''\<rparr>\<rparr>, None)
          else
            (st\<lparr>status := \<lparr>status_type = Some loading, message = ''Uploading file...''\<rparr>\<rparr>,
             Some file))"

section \<open>Properties of the handlers\<close>

subsection \<open>Auxiliary facts\<close>

lemma join_strings: "join n2s sep (map Str as) = Inr (separated sep as)"
  by (induction sep as rule: separated.induct) simp_all

lemma separated_contains:
  "a \<in> set as \<Longrightarrow> \<exists>p q. separated sep as = p @ a @ q"
proof (induction sep as rule: separated.induct)
  case (1 sep)
  then show ?case by simp
next
  case (2 sep b)
  then have "separated sep [b] = [] @ a @ []" by simp
  then show ?case by blast
next
  case (3 sep b c cs)
  show ?case
  proof (cases "a = b")
    case True
    then have "separated sep (b # c # cs) = [] @ a @ (sep @ separated sep (c # cs))" by simp
    then show ?thesis by blast
  next
    case False
    with 3 obtain p q where "separated sep (c # cs) = p @ a @ q" by auto
    then have "separated sep (b # c # cs) = (b @ sep @ p) @ a @ q" by simp
    then show ?thesis by blast
  qed
qed

lemma getField_without:
  "getField (filter (\<lambda>kv. fst kv \<noteq> key) body) key = Undefined"
proof -
  have "map_of (filter (\<lambda>kv. fst kv \<noteq> key) body) key = None"
    by (induction body) auto
  then show ?thesis by (simp add: getField_def)
qed

text \<open>
  The conversion to a string is decided by \<^const>\<open>converts\<close>: it gives
  \<^const>\<open>stringOf\<close> where that holds and throws a \<^verbatim>\<open>TypeError\<close> where it does not;
  likewise \<^verbatim>\<open>join\<close> and \<^const>\<open>convertsAll\<close>.
\<close>

lemma entryStrings_Cons:
  "entryStrings n2s (x # xs) = hd (entryStrings n2s [x]) # entryStrings n2s xs"
  by (cases x) simp_all

lemma entryStrings_single:
  "separated sep (entryStrings n2s [x]) = hd (entryStrings n2s [x])"
  by (cases x) simp_all

lemma element_by_toString:
  assumes "(toString n2s x :: 'e thrown + string) =
     (if converts x then Inr (stringOf n2s x) else Inl TypeError)"
  shows "(element n2s x :: 'e thrown + string) =
     (if converts x then Inr (hd (entryStrings n2s [x])) else Inl TypeError)"
  using assms by (cases x) simp_all

lemma join_by_toString:
  assumes "\<And>x. x \<in> set xs \<Longrightarrow> (toString n2s x :: 'e thrown + string) =
     (if converts x then Inr (stringOf n2s x) else Inl TypeError)"
  shows "(join n2s sep xs :: 'e thrown + string) =
     (if convertsAll xs then Inr (separated sep (entryStrings n2s xs)) else Inl TypeError)"
  using assms
proof (induction xs rule: induct_list012)
  case 1
  then show ?case by simp
next
  case (2 x)
  then have "(element n2s x :: 'e thrown + string) =
     (if converts x then Inr (hd (entryStrings n2s [x])) else Inl TypeError)"
    by (intro element_by_toString) simp
  then show ?case
    by (simp add: entryStrings_single del: entryStrings.simps)
next
  case (3 x y zs)
  have ex: "(element n2s x :: 'e thrown + string) =
     (if converts x then Inr (hd (entryStrings n2s [x])) else Inl TypeError)"
    using 3(3) by (intro element_by_toString) simp
  have rest: "(join n2s sep (y # zs) :: 'e thrown + string) =
     (if convertsAll (y # zs) then Inr (separated sep (entryStrings n2s (y # zs)))
      else Inl TypeError)"
    using 3(2,3) by simp
  have shape: "entryStrings n2s (x # y # zs) =
     hd (entryStrings n2s [x]) # hd (entryStrings n2s [y]) # entryStrings n2s zs"
    using entryStrings_Cons [of n2s x "y # zs"] entryStrings_Cons [of n2s y zs] by simp
  have shape': "entryStrings n2s (y # zs) = hd (entryStrings n2s [y]) # entryStrings n2s zs"
    by (rule entryStrings_Cons)
  show ?case
    unfolding join.simps ex rest shape shape'
    by simp
qed

lemma toString_converts:
  "(toString n2s v :: 'e thrown + string) =
     (if converts v then Inr (stringOf n2s v) else Inl TypeError)"
proof (induction v)
  case (Arr xs)
  then show ?case
    using join_by_toString [of xs n2s "'',''", where 'e = 'e] by simp
next
  case (Obj kvs)
  then show ?case by (simp split: option.splits)
qed simp_all

lemma join_converts:
  "(join n2s sep xs :: 'e thrown + string) =
     (if convertsAll xs then Inr (separated sep (entryStrings n2s xs)) else Inl TypeError)"
  by (rule join_by_toString) (rule toString_converts)


subsection \<open>Send email: the valid request\<close>

text \<open>
  Claim C1, as amended. Take a send-email request whose summary is truthy, whose recipients
  are a non-empty array of address strings, with both mail credentials set. If the summary
  converts to a string (every value does but an object with an own \<^verbatim>\<open>toString\<close>
  property, or an array holding one), the handler calls the mail provider exactly once,
  with one message whose \<^verbatim>\<open>to\<close> line is all the addresses separated by a comma and a
  space, so that each address occurs in it; and when the provider accepts the message the
  response is 200 with \<^verbatim>\<open>{success: true, message: "Email sent successfully"}\<close>. If the
  summary does not convert, the template literal throws: the response is the 500 of the
  catch block and the mail provider is not called.
\<close>

theorem send_email_valid:
  fixes sendMail :: "mailOptions \<Rightarrow> 'e + 'r"
  assumes "truthy (getField body ''summary'')"
    and "getField body ''recipients'' = Arr (map Str addrs)"
    and "addrs \<noteq> []"
    and "env_truthy (EMAIL_USER env)"
    and "env_truthy (EMAIL_PASS env)"
    and "opts = \<lparr>m_from = EMAIL_USER env, m_to = separated '', '' addrs,
                  subject = ''Meeting Summary - MangoDesk'',
                  html = html_head @ stringOf n2s (getField body ''summary'') @ html_tail\<rparr>"
  shows "(converts (getField body ''summary'') \<longrightarrow>
       mailCalls (snd (send_email n2s env sendMail body)) = [opts] \<and>
       (\<forall>a \<in> set addrs. \<exists>p q. m_to opts = p @ a @ q) \<and>
       (\<forall>info. sendMail opts = Inr info \<longrightarrow>
          send_email n2s env sendMail body =
            (\<lparr>statusCode = 200,
              json = Obj [(''success'', Bool True),
                          (''message'', Str ''Email sent successfully'')]\<rparr>,
             [SendMail opts]))) \<and>
     (\<not> converts (getField body ''summary'') \<longrightarrow>
       send_email n2s env sendMail body =
         (\<lparr>statusCode = 500,
           json = Obj [(''error'',
             Str ''Failed to send email. Please check your email configuration.'')]\<rparr>,
          [ConsoleError ''Error sending email:'' TypeError]))"
proof -
  have b: "(build_mailOptions n2s env (getField body ''summary'') (getField body ''recipients'')
          :: 'e thrown + mailOptions) =
      (if converts (getField body ''summary'') then Inr opts else Inl TypeError)"
    using assms(2,6) by (simp add: build_mailOptions_def join_strings toString_converts)
  have v: "\<not> (\<not> truthy (getField body ''summary'') \<or> \<not> truthy (getField body ''recipients'') \<or>
      \<not> isArray (getField body ''recipients'') \<or>
      length (elements (getField body ''recipients'')) = 0)"
    using assms(1,2,3) by simp
  have c: "\<not> (\<not> env_truthy (EMAIL_USER env) \<or> \<not> env_truthy (EMAIL_PASS env))"
    using assms(4,5) by simp
  have run: "send_email n2s env sendMail body =
     (if converts (getField body ''summary'') then
        (case sendMail opts of
           Inl e \<Rightarrow> send_email_catch (Rejected e) [SendMail opts]
         | Inr info \<Rightarrow>
             (\<lparr>statusCode = 200,
               json = Obj [(''success'', Bool True),
                           (''message'', Str ''Email sent successfully'')]\<rparr>,
              [SendMail opts]))
      else send_email_catch TypeError [])"
    unfolding send_email_def Let_def using v c b by simp
  have calls: "mailCalls (snd (send_email n2s env sendMail body)) = [opts]"
    if "converts (getField body ''summary'')"
    unfolding run using that by (cases "sendMail opts") (simp_all add: send_email_catch_def)
  have each: "\<forall>a \<in> set addrs. \<exists>p q. m_to opts = p @ a @ q"
    using assms(6) separated_contains by simp
  have ok: "\<forall>info. sendMail opts = Inr info \<longrightarrow>
        send_email n2s env sendMail body =
          (\<lparr>statusCode = 200,
            json = Obj [(''success'', Bool True),
                        (''message'', Str ''Email sent successfully'')]\<rparr>,
           [SendMail opts])"
    if "converts (getField body ''summary'')"
    unfolding run using that by simp
  have thrown: "send_email n2s env sendMail body =
         (\<lparr>statusCode = 500,
           json = Obj [(''error'',
             Str ''Failed to send email. Please check your email configuration.'')]\<rparr>,
          [ConsoleError ''Error sending email:'' TypeError])"
    if "\<not> converts (getField body ''summary'')"
    unfolding run using that by (simp add: send_email_catch_def)
  from calls each ok thrown show ?thesis by blast
qed

theorem send_email_valid_witness:
  "mailCalls (snd (send_email (\<lambda>d. ''0'')
       \<lparr>GEMINI_API_KEY = Some ''key'', EMAIL_USER = Some ''me@x.com'', EMAIL_PASS = Some ''pw''\<rparr>
       (\<lambda>opts. Inr () :: string + unit)
       [(''summary'', Str ''- Q3 roadmap reviewed''),
        (''recipients'', Arr [Str ''a@x.com'', Str ''b@x.com''])])) =
     [\<lparr>m_from = Some ''me@x.com'', m_to = ''a@x.com, b@x.com'',
       subject = ''Meeting Summary - MangoDesk'',
       html = html_head @ ''- Q3 roadmap reviewed'' @ html_tail\<rparr>] \<and>
   fst (send_email (\<lambda>d. ''0'')
       \<lparr>GEMINI_API_KEY = Some ''key'', EMAIL_USER = Some ''me@x.com'', EMAIL_PASS = Some ''pw''\<rparr>
       (\<lambda>opts. Inr () :: string + unit)
       [(''summary'', Str ''- Q3 roadmap reviewed''),
        (''recipients'', Arr [Str ''a@x.com'', Str ''b@x.com''])]) =
     \<lparr>statusCode = 200,
      json = Obj [(''success'', Bool True), (''message'', Str ''Email sent successfully'')]\<rparr>"
  using send_email_valid
    [of "[(''summary'', Str ''- Q3 roadmap reviewed''),
          (''recipients'', Arr [Str ''a@x.com'', Str ''b@x.com''])]"
        "[''a@x.com'', ''b@x.com'']"
        "\<lparr>GEMINI_API_KEY = Some ''key'', EMAIL_USER = Some ''me@x.com'', EMAIL_PASS = Some ''pw''\<rparr>"
        "\<lparr>m_from = Some ''me@x.com'', m_to = ''a@x.com, b@x.com'',
          subject = ''Meeting Summary - MangoDesk'',
          html = html_head @ ''- Q3 roadmap reviewed'' @ html_tail\<rparr>"
        "\<lambda>d. ''0''"
        "\<lambda>opts. Inr () :: string + unit"]
  by (simp add: getField_def env_truthy_def)

text \<open>
  A truthy summary is not enough: the summary \<^verbatim>\<open>{"toString": 1}\<close> with one recipient and
  both credentials set gets the 500 response, and no message is sent.
\<close>

theorem send_email_object_summary_counterexample:
  "mailCalls (snd (send_email (\<lambda>d. ''1'')
       \<lparr>GEMINI_API_KEY = Some ''key'', EMAIL_USER = Some ''me@x.com'', EMAIL_PASS = Some ''pw''\<rparr>
       (\<lambda>opts. Inr () :: string + unit)
       [(''summary'', Obj [(''toString'', Num 0x3FF0000000000000)]),
        (''recipients'', Arr [Str ''a@x.com''])])) = [] \<and>
   fst (send_email (\<lambda>d. ''1'')
       \<lparr>GEMINI_API_KEY = Some ''key'', EMAIL_USER = Some ''me@x.com'', EMAIL_PASS = Some ''pw''\<rparr>
       (\<lambda>opts. Inr () :: string + unit)
       [(''summary'', Obj [(''toString'', Num 0x3FF0000000000000)]),
        (''recipients'', Arr [Str ''a@x.com''])]) =
     \<lparr>statusCode = 500,
      json = Obj [(''error'',
        Str ''Failed to send email. Please check your email configuration.'')]\<rparr>"
  by (simp add: send_email_def getField_def env_truthy_def build_mailOptions_def
      send_email_catch_def)

subsection \<open>Generate summary: the valid request\<close>

text \<open>
  Claim C2, as amended. Take a generate-summary request whose transcript and instruction
  are truthy, with the provider credential set. If both convert to strings (every value
  does but an object with an own \<^verbatim>\<open>toString\<close> property, or an array holding one), the
  handler builds one prompt, the fixed opening, the transcript under the label TRANSCRIPT,
  the instruction under the label INSTRUCTION and the fixed closing directive; it calls the
  completion provider exactly once with it, whatever the provider answers; and when the
  provider returns a text, the response is 200 with that text, unchanged, as
  \<^verbatim>\<open>summary\<close>. If one of them does not convert, the template literal throws: the
  response is the 500 of the catch block and the completion provider is not called.
\<close>

theorem generate_summary_valid:
  fixes generateContent :: "string \<Rightarrow> string \<Rightarrow> 'e + string"
  assumes "truthy (getField body ''transcript'')"
    and "truthy (getField body ''instruction'')"
    and "env_truthy (GEMINI_API_KEY env)"
    and "p =
      ''\<newline>Please analyze the following meeting transcript and provide a summary based on the given instruction.\<newline>'' @
      ''\<newline>TRANSCRIPT:\<newline>'' @ stringOf n2s (getField body ''transcript'') @
      ''\<newline>\<newline>INSTRUCTION:\<newline>'' @ stringOf n2s (getField body ''instruction'') @
      ''\<newline>\<newline>Please provide a clear, well-structured summary that follows the instruction above.\<newline>''"
  shows "(converts (getField body ''transcript'') \<and> converts (getField body ''instruction'') \<longrightarrow>
       completionCalls (snd (generate_summary n2s env generateContent body)) =
         [(''gemini-1.5-flash'', p)] \<and>
       (\<forall>text. generateContent ''gemini-1.5-flash'' p = Inr text \<longrightarrow>
          generate_summary n2s env generateContent body =
            (\<lparr>statusCode = 200, json = Obj [(''summary'', Str text)]\<rparr>,
             [GenerateContent ''gemini-1.5-flash'' p]))) \<and>
     (\<not> (converts (getField body ''transcript'') \<and> converts (getField body ''instruction'')) \<longrightarrow>
       generate_summary n2s env generateContent body =
         (\<lparr>statusCode = 500,
           json = Obj [(''error'', Str ''Failed to generate summary. Please try again.'')]\<rparr>,
          [ConsoleError ''Error generating summary:'' TypeError]))"
proof -
  have pr: "(prompt n2s (getField body ''transcript'') (getField body ''instruction'')
          :: 'e thrown + string) =
      (if converts (getField body ''transcript'') \<and> converts (getField body ''instruction'')
       then Inr p else Inl TypeError)"
    using assms(4)
    by (simp add: prompt_def prompt_head_def prompt_mid_def prompt_tail_def toString_converts)
  have v: "\<not> (\<not> truthy (getField body ''transcript'') \<or> \<not> truthy (getField body ''instruction''))"
    using assms(1,2) by simp
  have run: "generate_summary n2s env generateContent body =
     (if converts (getField body ''transcript'') \<and> converts (getField body ''instruction'') then
        (case generateContent ''gemini-1.5-flash'' p of
           Inl e \<Rightarrow>
             generate_summary_catch (Rejected e) [GenerateContent ''gemini-1.5-flash'' p]
         | Inr text \<Rightarrow>
             (\<lparr>statusCode = 200, json = Obj [(''summary'', Str text)]\<rparr>,
              [GenerateContent ''gemini-1.5-flash'' p]))
      else generate_summary_catch TypeError [])"
    unfolding generate_summary_def Let_def using v assms(3) pr by simp
  have calls: "completionCalls (snd (generate_summary n2s env generateContent body)) =
         [(''gemini-1.5-flash'', p)]"
    if "converts (getField body ''transcript'') \<and> converts (getField body ''instruction'')"
    unfolding run using that
    by (cases "generateContent ''gemini-1.5-flash'' p") (simp_all add: generate_summary_catch_def)
  have ok: "\<forall>text. generateContent ''gemini-1.5-flash'' p = Inr text \<longrightarrow>
          generate_summary n2s env generateContent body =
            (\<lparr>statusCode = 200, json = Obj [(''summary'', Str text)]\<rparr>,
             [GenerateContent ''gemini-1.5-flash'' p])"
    if "converts (getField body ''transcript'') \<and> converts (getField body ''instruction'')"
    unfolding run using that by simp
  have thrown: "generate_summary n2s env generateContent body =
         (\<lparr>statusCode = 500,
           json = Obj [(''error'', Str ''Failed to generate summary. Please try again.'')]\<rparr>,
          [ConsoleError ''Error generating summary:'' TypeError])"
    if "\<not> (converts (getField body ''transcript'') \<and> converts (getField body ''instruction''))"
    using that by (auto simp add: run generate_summary_catch_def)
  from calls ok thrown show ?thesis by blast
qed

theorem generate_summary_valid_witness:
  "generate_summary (\<lambda>d. ''0'')
       \<lparr>GEMINI_API_KEY = Some ''key'', EMAIL_USER = Some ''me@x.com'', EMAIL_PASS = Some ''pw''\<rparr>
       (\<lambda>m p. Inr ''  * Q3 roadmap  '' :: string + string)
       [(''transcript'', Str ''Team discussed Q3 roadmap.''),
        (''instruction'', Str ''bullet points'')] =
     (\<lparr>statusCode = 200, json = Obj [(''summary'', Str ''  * Q3 roadmap  '')]\<rparr>,
      [GenerateContent ''gemini-1.5-flash''
        (prompt_head @ ''Team discussed Q3 roadmap.'' @ prompt_mid @ ''bullet points'' @
         prompt_tail)])"
  using generate_summary_valid
    [of "[(''transcript'', Str ''Team discussed Q3 roadmap.''),
          (''instruction'', Str ''bullet points'')]"
        "\<lparr>GEMINI_API_KEY = Some ''key'', EMAIL_USER = Some ''me@x.com'', EMAIL_PASS = Some ''pw''\<rparr>"
        "prompt_head @ ''Team discussed Q3 roadmap.'' @ prompt_mid @ ''bullet points'' @
         prompt_tail"
        "\<lambda>d. ''0''"
        "\<lambda>m p. Inr ''  * Q3 roadmap  '' :: string + string"]
  by (simp add: getField_def env_truthy_def prompt_head_def prompt_mid_def prompt_tail_def)

text \<open>
  Truthy fields are not enough: the transcript \<^verbatim>\<open>{"toString": "x"}\<close> with the
  instruction \<^verbatim>\<open>"i"\<close> and the credential set gets the 500 response, and the completion
  provider is not called.
\<close>

theorem generate_summary_object_transcript_counterexample:
  "completionCalls (snd (generate_summary (\<lambda>d. ''0'')
       \<lparr>GEMINI_API_KEY = Some ''key'', EMAIL_USER = Some ''me@x.com'', EMAIL_PASS = Some ''pw''\<rparr>
       (\<lambda>m p. Inr ''Mocked AI summary response'' :: string + string)
       [(''transcript'', Obj [(''toString'', Str ''x'')]), (''instruction'', Str ''i'')])) = [] \<and>
   fst (generate_summary (\<lambda>d. ''0'')
       \<lparr>GEMINI_API_KEY = Some ''key'', EMAIL_USER = Some ''me@x.com'', EMAIL_PASS = Some ''pw''\<rparr>
       (\<lambda>m p. Inr ''Mocked AI summary response'' :: string + string)
       [(''transcript'', Obj [(''toString'', Str ''x'')]), (''instruction'', Str ''i'')]) =
     \<lparr>statusCode = 500,
      json = Obj [(''error'', Str ''Failed to generate summary. Please try again.'')]\<rparr>"
  by (simp add: generate_summary_def getField_def env_truthy_def prompt_def
      generate_summary_catch_def)

subsection \<open>Generate summary: missing fields\<close>

text \<open>
  Claim C3. For every generate-summary request whose transcript or instruction is absent or
  falsy, the response is 400 with the error message "Transcript and instruction are
  required", and the handler has no effect at all: the completion provider is not called.
\<close>

theorem generate_summary_missing_field:
  assumes "\<not> truthy (getField body ''transcript'') \<or> \<not> truthy (getField body ''instruction'')"
  shows "generate_summary n2s env generateContent body =
     (\<lparr>statusCode = 400,
       json = Obj [(''error'', Str ''Transcript and instruction are required'')]\<rparr>, []) \<and>
     completionCalls (snd (generate_summary n2s env generateContent body)) = []"
  using assms by (auto simp add: generate_summary_def Let_def)

theorem generate_summary_missing_field_witness:
  "generate_summary (\<lambda>d. ''0'')
       \<lparr>GEMINI_API_KEY = Some ''key'', EMAIL_USER = Some ''me@x.com'', EMAIL_PASS = Some ''pw''\<rparr>
       (\<lambda>m p. Inr ''Mocked AI summary response'' :: string + string)
       [(''instruction'', Str ''Summarize in bullet points'')] =
     (\<lparr>statusCode = 400,
       json = Obj [(''error'', Str ''Transcript and instruction are required'')]\<rparr>, []) \<and>
   generate_summary (\<lambda>d. ''0'')
       \<lparr>GEMINI_API_KEY = Some ''key'', EMAIL_USER = Some ''me@x.com'', EMAIL_PASS = Some ''pw''\<rparr>
       (\<lambda>m p. Inr ''Mocked AI summary response'' :: string + string)
       [(''transcript'', Str ''This is a test meeting transcript.''), (''instruction'', Str [])] =
     (\<lparr>statusCode = 400,
       json = Obj [(''error'', Str ''Transcript and instruction are required'')]\<rparr>, [])"
  using generate_summary_missing_field
      [of "[(''instruction'', Str ''Summarize in bullet points'')]" "\<lambda>d. ''0''"
          "\<lparr>GEMINI_API_KEY = Some ''key'', EMAIL_USER = Some ''me@x.com'', EMAIL_PASS = Some ''pw''\<rparr>"
          "\<lambda>m p. Inr ''Mocked AI summary response'' :: string + string"]
    generate_summary_missing_field
      [of "[(''transcript'', Str ''This is a test meeting transcript.''), (''instruction'', Str [])]"
          "\<lambda>d. ''0''"
          "\<lparr>GEMINI_API_KEY = Some ''key'', EMAIL_USER = Some ''me@x.com'', EMAIL_PASS = Some ''pw''\<rparr>"
          "\<lambda>m p. Inr ''Mocked AI summary response'' :: string + string"]
  by (simp add: getField_def)

subsection \<open>Send email: missing fields\<close>

text \<open>
  Claim C4. For every send-email request whose recipients are absent, not an array or an
  empty array, or whose summary is absent, the response is 400 with the error message
  "Summary and at least one recipient email are required", and the mail provider is not
  called.
\<close>

theorem send_email_missing_field:
  assumes "map_of body ''recipients'' = None \<or> \<not> isArray (getField body ''recipients'') \<or>
           getField body ''recipients'' = Arr [] \<or> map_of body ''summary'' = None"
  shows "send_email n2s env sendMail body =
     (\<lparr>statusCode = 400,
       json = Obj [(''error'',
         Str ''Summary and at least one recipient email are required'')]\<rparr>, []) \<and>
     mailCalls (snd (send_email n2s env sendMail body)) = []"
proof -
  have "\<not> truthy (getField body ''summary'') \<or> \<not> truthy (getField body ''recipients'') \<or>
      \<not> isArray (getField body ''recipients'') \<or>
      length (elements (getField body ''recipients'')) = 0"
    using assms by (auto simp add: getField_def)
  then show ?thesis
    by (simp add: send_email_def Let_def)
qed

theorem send_email_missing_field_witness:
  "send_email (\<lambda>d. ''0'')
       \<lparr>GEMINI_API_KEY = Some ''key'', EMAIL_USER = Some ''me@x.com'', EMAIL_PASS = Some ''pw''\<rparr>
       (\<lambda>opts. Inr () :: string + unit)
       [(''summary'', Str ''This is a test summary.''), (''recipients'', Str ''test@example.com'')] =
     (\<lparr>statusCode = 400,
       json = Obj [(''error'',
         Str ''Summary and at least one recipient email are required'')]\<rparr>, []) \<and>
   send_email (\<lambda>d. ''0'')
       \<lparr>GEMINI_API_KEY = Some ''key'', EMAIL_USER = Some ''me@x.com'', EMAIL_PASS = Some ''pw''\<rparr>
       (\<lambda>opts. Inr () :: string + unit)
       [(''summary'', Str ''This is a test summary.''), (''recipients'', Arr [])] =
     (\<lparr>statusCode = 400,
       json = Obj [(''error'',
         Str ''Summary and at least one recipient email are required'')]\<rparr>, [])"
  using send_email_missing_field
    [of "[(''summary'', Str ''This is a test summary.''), (''recipients'', Str ''test@example.com'')]"
        "\<lambda>d. ''0''"
        "\<lparr>GEMINI_API_KEY = Some ''key'', EMAIL_USER = Some ''me@x.com'', EMAIL_PASS = Some ''pw''\<rparr>"
        "\<lambda>opts. Inr () :: string + unit"]
    send_email_missing_field
    [of "[(''summary'', Str ''This is a test summary.''), (''recipients'', Arr [])]"
        "\<lambda>d. ''0''"
        "\<lparr>GEMINI_API_KEY = Some ''key'', EMAIL_USER = Some ''me@x.com'', EMAIL_PASS = Some ''pw''\<rparr>"
        "\<lambda>opts. Inr () :: string + unit"]
  by (simp add: getField_def)

subsection \<open>Upload transcript: a file of another type\<close>

text \<open>
  Claim C5. The claim expects an upload declared \<^verbatim>\<open>application/pdf\<close> to be answered with
  400 and the message "Only .txt files are allowed". The file filter builds an error with
  that message, but no handler of the route receives it: it reaches the error handling
  middleware, which answers 500 "Internal server error" and writes the message to the log
  only.
\<close>

theorem upload_pdf_internal_error:
  "upload_transcript utf8
     (Some \<lparr>fieldname = ''transcript'', originalname = ''test.pdf'',
            mimetype = ''application/pdf'', buffer = content\<rparr>) =
     (\<lparr>statusCode = 500, json = Obj [(''error'', Str ''Internal server error'')]\<rparr>,
      [ConsoleError ''Unhandled error:'' (Error ''Only .txt files are allowed'')])"
  by (simp add: upload_transcript_def single_def fileFilter_def error_middleware_def)

text \<open>
  The other half of the claim holds for a named part shorter than the size limit; a part
  that reaches the limit is answered by the error handling middleware as well.
\<close>

lemma upload_accepted:
  assumes "mimetype f = ''text/plain'' \<or> mimetype f = ''application/octet-stream''"
    and "fieldname f = ''transcript''"
    and "originalname f \<noteq> []"
    and "length (buffer f) < fileSize"
  shows "upload_transcript utf8 (Some f) =
     (\<lparr>statusCode = 200, json = Obj [(''transcript'', Str (utf8 (buffer f)))]\<rparr>, [])"
  using assms
  by (auto simp add: upload_transcript_def single_def fileFilter_def upload_transcript_handler_def)

lemma upload_too_large:
  assumes "mimetype f = ''text/plain'' \<or> mimetype f = ''application/octet-stream''"
    and "fieldname f = ''transcript''"
    and "originalname f \<noteq> []"
    and "fileSize \<le> length (buffer f)"
  shows "upload_transcript utf8 (Some f) =
     (\<lparr>statusCode = 500, json = Obj [(''error'', Str ''Internal server error'')]\<rparr>,
      [ConsoleError ''Unhandled error:'' (MulterError ''LIMIT_FILE_SIZE'')])"
  using assms
  by (auto simp add: upload_transcript_def single_def fileFilter_def error_middleware_def)

subsection \<open>The client's check and the server's filter\<close>

text \<open>
  Claim C6, as amended. The client's check posts a file exactly when its declared type is
  \<^verbatim>\<open>text/plain\<close> or its name ends in \<^verbatim>\<open>.txt\<close>; the server's filter accepts a part
  exactly when its declared type is \<^verbatim>\<open>text/plain\<close> or \<^verbatim>\<open>application/octet-stream\<close>.
  On the same declared type and name the two agree exactly when the type is
  \<^verbatim>\<open>text/plain\<close> (both accept), or the name ends in \<^verbatim>\<open>.txt\<close> just when the type is
  \<^verbatim>\<open>application/octet-stream\<close>.
\<close>

theorem precheck_and_fileFilter:
  "(snd (handleFileUpload (Some \<lparr>type = t, name = n\<rparr>) st) = Some \<lparr>type = t, name = n\<rparr>) =
     (t = ''text/plain'' \<or> endsWith n ''.txt'') \<and>
   (fileFilter \<lparr>fieldname = fld, originalname = n, mimetype = t, buffer = b\<rparr> =
     (Inr True :: 'e thrown + bool)) =
     (t = ''text/plain'' \<or> t = ''application/octet-stream'') \<and>
   ((snd (handleFileUpload (Some \<lparr>type = t, name = n\<rparr>) st) = Some \<lparr>type = t, name = n\<rparr>) =
    (fileFilter \<lparr>fieldname = fld, originalname = n, mimetype = t, buffer = b\<rparr> =
     (Inr True :: 'e thrown + bool))) =
     (t = ''text/plain'' \<or> (endsWith n ''.txt'' = (t = ''application/octet-stream'')))"
  by (auto simp add: handleFileUpload_def fileFilter_def)

theorem precheck_and_fileFilter_witness:
  "snd (handleFileUpload (Some \<lparr>type = ''text/plain'', name = ''test-transcript.txt''\<rparr>)
     initial_state) = Some \<lparr>type = ''text/plain'', name = ''test-transcript.txt''\<rparr> \<and>
   fileFilter \<lparr>fieldname = ''transcript'', originalname = ''test-transcript.txt'',
               mimetype = ''text/plain'', buffer = []\<rparr> = (Inr True :: unit thrown + bool)"
  using precheck_and_fileFilter
    [where 'e = unit, of "''text/plain''" "''test-transcript.txt''" initial_state "''transcript''" "[]"]
  by simp

text \<open>
  The two checks are not equivalent: a file named \<^verbatim>\<open>notes.txt\<close> and declared
  \<^verbatim>\<open>application/pdf\<close> is posted by the client and refused by the filter; a file named
  \<^verbatim>\<open>data.bin\<close> and declared \<^verbatim>\<open>application/octet-stream\<close> is held back by the client
  and would be accepted by the filter.
\<close>

theorem precheck_differs_counterexample:
  "(snd (handleFileUpload (Some \<lparr>type = ''application/pdf'', name = ''notes.txt''\<rparr>)
      initial_state) = Some \<lparr>type = ''application/pdf'', name = ''notes.txt''\<rparr>) \<noteq>
   (fileFilter \<lparr>fieldname = ''transcript'', originalname = ''notes.txt'',
                mimetype = ''application/pdf'', buffer = []\<rparr> =
      (Inr True :: unit thrown + bool)) \<and>
   (snd (handleFileUpload (Some \<lparr>type = ''application/octet-stream'', name = ''data.bin''\<rparr>)
      initial_state) = Some \<lparr>type = ''application/octet-stream'', name = ''data.bin''\<rparr>) \<noteq>
   (fileFilter \<lparr>fieldname = ''transcript'', originalname = ''data.bin'',
                mimetype = ''application/octet-stream'', buffer = []\<rparr> =
      (Inr True :: unit thrown + bool))"
  by (simp add: handleFileUpload_def fileFilter_def endsWith_def)

subsection \<open>Provider failures\<close>

text \<open>
  Claim C7. For every valid generate-summary request whose single call of the completion
  provider fails, and for every valid send-email request whose single call of the mail
  provider fails, the response is 500 with the fixed message of that route. The provider's
  failure \<open>e\<close> is arbitrary; it goes to the server's log and does not occur in the
  response.
\<close>

theorem provider_failure_generic:
  fixes generateContent :: "string \<Rightarrow> string \<Rightarrow> 'e + string"
    and sendMail :: "mailOptions \<Rightarrow> 'e + 'r"
  shows "(truthy (getField body ''transcript'') \<and> truthy (getField body ''instruction'') \<and>
      env_truthy (GEMINI_API_KEY env) \<and>
      prompt n2s (getField body ''transcript'') (getField body ''instruction'') =
        (Inr p :: 'e thrown + string) \<and>
      generateContent ''gemini-1.5-flash'' p = Inl e \<longrightarrow>
      generate_summary n2s env generateContent body =
        (\<lparr>statusCode = 500,
          json = Obj [(''error'', Str ''Failed to generate summary. Please try again.'')]\<rparr>,
         [GenerateContent ''gemini-1.5-flash'' p,
          ConsoleError ''Error generating summary:'' (Rejected e)])) \<and>
     (truthy (getField body ''summary'') \<and> isArray (getField body ''recipients'') \<and>
      elements (getField body ''recipients'') \<noteq> [] \<and>
      env_truthy (EMAIL_USER env) \<and> env_truthy (EMAIL_PASS env) \<and>
      build_mailOptions n2s env (getField body ''summary'') (getField body ''recipients'') =
        (Inr opts :: 'e thrown + mailOptions) \<and>
      sendMail opts = Inl e \<longrightarrow>
      send_email n2s env sendMail body =
        (\<lparr>statusCode = 500,
          json = Obj [(''error'',
            Str ''Failed to send email. Please check your email configuration.'')]\<rparr>,
         [SendMail opts, ConsoleError ''Error sending email:'' (Rejected e)]))"
proof (intro conjI impI)
  assume "truthy (getField body ''transcript'') \<and> truthy (getField body ''instruction'') \<and>
      env_truthy (GEMINI_API_KEY env) \<and>
      prompt n2s (getField body ''transcript'') (getField body ''instruction'') =
        (Inr p :: 'e thrown + string) \<and>
      generateContent ''gemini-1.5-flash'' p = Inl e"
  then show "generate_summary n2s env generateContent body =
        (\<lparr>statusCode = 500,
          json = Obj [(''error'', Str ''Failed to generate summary. Please try again.'')]\<rparr>,
         [GenerateContent ''gemini-1.5-flash'' p,
          ConsoleError ''Error generating summary:'' (Rejected e)])"
    by (simp add: generate_summary_def Let_def generate_summary_catch_def)
next
  assume a: "truthy (getField body ''summary'') \<and> isArray (getField body ''recipients'') \<and>
      elements (getField body ''recipients'') \<noteq> [] \<and>
      env_truthy (EMAIL_USER env) \<and> env_truthy (EMAIL_PASS env) \<and>
      build_mailOptions n2s env (getField body ''summary'') (getField body ''recipients'') =
        (Inr opts :: 'e thrown + mailOptions) \<and>
      sendMail opts = Inl e"
  then have "truthy (getField body ''recipients'')"
    by (cases "getField body ''recipients''") simp_all
  with a show "send_email n2s env sendMail body =
        (\<lparr>statusCode = 500,
          json = Obj [(''error'',
            Str ''Failed to send email. Please check your email configuration.'')]\<rparr>,
         [SendMail opts, ConsoleError ''Error sending email:'' (Rejected e)])"
    by (simp add: send_email_def Let_def send_email_catch_def)
qed

theorem provider_failure_generic_witness:
  "fst (generate_summary (\<lambda>d. ''0'')
       \<lparr>GEMINI_API_KEY = Some ''key'', EMAIL_USER = Some ''me@x.com'', EMAIL_PASS = Some ''pw''\<rparr>
       (\<lambda>m p. Inl ''429 quota exceeded for key'')
       [(''transcript'', Str ''Team discussed Q3 roadmap.''), (''instruction'', Str ''bullet points'')]) =
     \<lparr>statusCode = 500,
      json = Obj [(''error'', Str ''Failed to generate summary. Please try again.'')]\<rparr> \<and>
   fst (send_email (\<lambda>d. ''0'')
       \<lparr>GEMINI_API_KEY = Some ''key'', EMAIL_USER = Some ''me@x.com'', EMAIL_PASS = Some ''pw''\<rparr>
       (\<lambda>opts. Inl ''535 bad credentials for me@x.com'' :: string + unit)
       [(''summary'', Str ''notes''), (''recipients'', Arr [Str ''a@x.com''])]) =
     \<lparr>statusCode = 500,
      json = Obj [(''error'',
        Str ''Failed to send email. Please check your email configuration.'')]\<rparr>"
  using provider_failure_generic
    [of "[(''transcript'', Str ''Team discussed Q3 roadmap.''), (''instruction'', Str ''bullet points'')]"
        "\<lparr>GEMINI_API_KEY = Some ''key'', EMAIL_USER = Some ''me@x.com'', EMAIL_PASS = Some ''pw''\<rparr>"
        "\<lambda>d. ''0''"
        "prompt_head @ ''Team discussed Q3 roadmap.'' @ prompt_mid @ ''bullet points'' @ prompt_tail"
        "\<lambda>m p. Inl ''429 quota exceeded for key''" "''429 quota exceeded for key''"
        "\<lparr>m_from = None, m_to = [], subject = [], html = []\<rparr>"
        "\<lambda>opts. Inl ''535 bad credentials for me@x.com'' :: string + unit"]
    provider_failure_generic
    [of "[(''summary'', Str ''notes''), (''recipients'', Arr [Str ''a@x.com''])]"
        "\<lparr>GEMINI_API_KEY = Some ''key'', EMAIL_USER = Some ''me@x.com'', EMAIL_PASS = Some ''pw''\<rparr>"
        "\<lambda>d. ''0''" "[]"
        "\<lambda>m p. Inl ''429 quota exceeded for key''" "''535 bad credentials for me@x.com''"
        "\<lparr>m_from = Some ''me@x.com'', m_to = ''a@x.com'',
          subject = ''Meeting Summary - MangoDesk'', html = html_head @ ''notes'' @ html_tail\<rparr>"
        "\<lambda>opts. Inl ''535 bad credentials for me@x.com'' :: string + unit"]
  by (simp add: getField_def env_truthy_def prompt_def build_mailOptions_def)

subsection \<open>Recipient accumulation\<close>



subsection \<open>Send email: a falsy summary\<close>

text \<open>
  Claim C9. For every send-email request whose summary is present with a falsy value, the
  empty string among them, the response is the 400 response for missing fields, with no
  effect, so the mail provider is not called; it is the response the same request gets
  once its summary is taken out.
\<close>

theorem send_email_falsy_summary:
  assumes "map_of body ''summary'' = Some v" and "\<not> truthy v"
  shows "send_email n2s env sendMail body =
     (\<lparr>statusCode = 400,
       json = Obj [(''error'',
         Str ''Summary and at least one recipient email are required'')]\<rparr>, []) \<and>
     send_email n2s env sendMail body =
       send_email n2s env sendMail (filter (\<lambda>kv. fst kv \<noteq> ''summary'') body)"
proof -
  have "\<not> truthy (getField body ''summary'')"
    using assms by (simp add: getField_def)
  then have here: "send_email n2s env sendMail body =
     (\<lparr>statusCode = 400,
       json = Obj [(''error'',
         Str ''Summary and at least one recipient email are required'')]\<rparr>, [])"
    by (simp add: send_email_def Let_def)
  have "\<not> truthy (getField (filter (\<lambda>kv. fst kv \<noteq> ''summary'') body) ''summary'')"
    by (simp add: getField_without)
  then have "send_email n2s env sendMail (filter (\<lambda>kv. fst kv \<noteq> ''summary'') body) =
     (\<lparr>statusCode = 400,
       json = Obj [(''error'',
         Str ''Summary and at least one recipient email are required'')]\<rparr>, [])"
    by (simp add: send_email_def Let_def)
  with here show ?thesis by simp
qed

theorem send_email_falsy_summary_witness:
  "send_email (\<lambda>d. ''0'')
       \<lparr>GEMINI_API_KEY = Some ''key'', EMAIL_USER = Some ''me@x.com'', EMAIL_PASS = Some ''pw''\<rparr>
       (\<lambda>opts. Inr () :: string + unit)
       [(''summary'', Str []), (''recipients'', Arr [Str ''test@example.com''])] =
     (\<lparr>statusCode = 400,
       json = Obj [(''error'',
         Str ''Summary and at least one recipient email are required'')]\<rparr>, [])"
  using send_email_falsy_summary
    [of "[(''summary'', Str []), (''recipients'', Arr [Str ''test@example.com''])]" "Str []"
        "\<lambda>d. ''0''"
        "\<lparr>GEMINI_API_KEY = Some ''key'', EMAIL_USER = Some ''me@x.com'', EMAIL_PASS = Some ''pw''\<rparr>"
        "\<lambda>opts. Inr () :: string + unit"]
  by simp

subsection \<open>Send email: the entries of the recipient array\<close>

text \<open>
  Claim C10, as amended. The entries of a non-empty recipient array are not looked at by the
  validation: with a truthy summary the response is never the 400 one, whatever the
  entries are. With both credentials set: if every entry and the summary convert to
  strings, the mail provider is called exactly once and the \<^verbatim>\<open>to\<close> line of the message
  is the entries' strings with a comma and a space between them, where an empty string, a
  \<^verbatim>\<open>null\<close> and an \<^verbatim>\<open>undefined\<close> entry each contribute the empty string; if an entry or
  the summary does not convert (an object with an own \<^verbatim>\<open>toString\<close> property, or an
  array holding one), the response is the 500 of the catch block and the mail provider is
  not called.
\<close>

theorem send_email_recipients_unchecked:
  fixes sendMail :: "mailOptions \<Rightarrow> 'e + 'r"
  assumes "truthy (getField body ''summary'')"
    and "getField body ''recipients'' = Arr xs"
    and "xs \<noteq> []"
  shows "statusCode (fst (send_email n2s env sendMail body)) \<noteq> 400 \<and>
     (env_truthy (EMAIL_USER env) \<and> env_truthy (EMAIL_PASS env) \<and>
      convertsAll xs \<and> converts (getField body ''summary'') \<longrightarrow>
      mailCalls (snd (send_email n2s env sendMail body)) =
        [\<lparr>m_from = EMAIL_USER env, m_to = separated '', '' (entryStrings n2s xs),
          subject = ''Meeting Summary - MangoDesk'',
          html = html_head @ stringOf n2s (getField body ''summary'') @ html_tail\<rparr>]) \<and>
     (env_truthy (EMAIL_USER env) \<and> env_truthy (EMAIL_PASS env) \<and>
      \<not> (convertsAll xs \<and> converts (getField body ''summary'')) \<longrightarrow>
      send_email n2s env sendMail body =
        (\<lparr>statusCode = 500,
          json = Obj [(''error'',
            Str ''Failed to send email. Please check your email configuration.'')]\<rparr>,
         [ConsoleError ''Error sending email:'' TypeError]))"
proof -
  let ?opts = "\<lparr>m_from = EMAIL_USER env, m_to = separated '', '' (entryStrings n2s xs),
          subject = ''Meeting Summary - MangoDesk'',
          html = html_head @ stringOf n2s (getField body ''summary'') @ html_tail\<rparr>"
  have v: "\<not> (\<not> truthy (getField body ''summary'') \<or> \<not> truthy (getField body ''recipients'') \<or>
      \<not> isArray (getField body ''recipients'') \<or>
      length (elements (getField body ''recipients'')) = 0)"
    using assms by simp
  have b: "(build_mailOptions n2s env (getField body ''summary'') (Arr xs)
          :: 'e thrown + mailOptions) =
      (if convertsAll xs \<and> converts (getField body ''summary'') then Inr ?opts
       else Inl TypeError)"
    by (simp add: build_mailOptions_def join_converts toString_converts)
  have run: "send_email n2s env sendMail body =
     (if \<not> env_truthy (EMAIL_USER env) \<or> \<not> env_truthy (EMAIL_PASS env) then
        (\<lparr>statusCode = 500,
          json = Obj [(''error'', Str ''Email configuration not set up'')]\<rparr>, [])
      else if convertsAll xs \<and> converts (getField body ''summary'') then
        (case sendMail ?opts of
           Inl e \<Rightarrow> send_email_catch (Rejected e) [SendMail ?opts]
         | Inr info \<Rightarrow>
             (\<lparr>statusCode = 200,
               json = Obj [(''success'', Bool True),
                           (''message'', Str ''Email sent successfully'')]\<rparr>,
              [SendMail ?opts]))
      else send_email_catch TypeError [])"
    unfolding send_email_def Let_def using v assms(2) b by simp
  have passes: "statusCode (fst (send_email n2s env sendMail body)) \<noteq> 400"
    unfolding run
    by (simp add: send_email_catch_def split: sum.splits)
  have sent: "mailCalls (snd (send_email n2s env sendMail body)) = [?opts]"
    if "env_truthy (EMAIL_USER env)" "env_truthy (EMAIL_PASS env)"
      "convertsAll xs" "converts (getField body ''summary'')"
    using that by (simp add: run send_email_catch_def split: sum.splits)
  have thrown: "send_email n2s env sendMail body =
        (\<lparr>statusCode = 500,
          json = Obj [(''error'',
            Str ''Failed to send email. Please check your email configuration.'')]\<rparr>,
         [ConsoleError ''Error sending email:'' TypeError])"
    if "env_truthy (EMAIL_USER env)" "env_truthy (EMAIL_PASS env)"
      "\<not> (convertsAll xs \<and> converts (getField body ''summary''))"
    using that by (auto simp add: run send_email_catch_def)
  from passes sent thrown show ?thesis by blast
qed

theorem send_email_recipients_unchecked_witness:
  "statusCode (fst (send_email (\<lambda>d. ''0'')
       \<lparr>GEMINI_API_KEY = Some ''key'', EMAIL_USER = Some ''me@x.com'', EMAIL_PASS = Some ''pw''\<rparr>
       (\<lambda>opts. Inr () :: string + unit)
       [(''summary'', Str ''notes''), (''recipients'', Arr [Str [], Null, Bool True])])) \<noteq> 400 \<and>
   mailCalls (snd (send_email (\<lambda>d. ''0'')
       \<lparr>GEMINI_API_KEY = Some ''key'', EMAIL_USER = Some ''me@x.com'', EMAIL_PASS = Some ''pw''\<rparr>
       (\<lambda>opts. Inr () :: string + unit)
       [(''summary'', Str ''notes''), (''recipients'', Arr [Str [], Null, Bool True])])) =
     [\<lparr>m_from = Some ''me@x.com'', m_to = '', , true'', subject = ''Meeting Summary - MangoDesk'',
       html = html_head @ ''notes'' @ html_tail\<rparr>] \<and>
   mailCalls (snd (send_email (\<lambda>d. ''0'')
       \<lparr>GEMINI_API_KEY = Some ''key'', EMAIL_USER = Some ''me@x.com'', EMAIL_PASS = Some ''pw''\<rparr>
       (\<lambda>opts. Inr () :: string + unit)
       [(''summary'', Str ''notes''), (''recipients'', Arr [Str []])])) =
     [\<lparr>m_from = Some ''me@x.com'', m_to = [], subject = ''Meeting Summary - MangoDesk'',
       html = html_head @ ''notes'' @ html_tail\<rparr>]"
  using send_email_recipients_unchecked
    [of "[(''summary'', Str ''notes''), (''recipients'', Arr [Str [], Null, Bool True])]"
        "[Str [], Null, Bool True]"
        "\<lambda>d. ''0''"
        "\<lparr>GEMINI_API_KEY = Some ''key'', EMAIL_USER = Some ''me@x.com'', EMAIL_PASS = Some ''pw''\<rparr>"
        "\<lambda>opts. Inr () :: string + unit"]
    send_email_recipients_unchecked
    [of "[(''summary'', Str ''notes''), (''recipients'', Arr [Str []])]"
        "[Str []]"
        "\<lambda>d. ''0''"
        "\<lparr>GEMINI_API_KEY = Some ''key'', EMAIL_USER = Some ''me@x.com'', EMAIL_PASS = Some ''pw''\<rparr>"
        "\<lambda>opts. Inr () :: string + unit"]
  by (simp add: getField_def env_truthy_def)

text \<open>
  Not every non-empty array reaches the mail provider: the recipients
  \<^verbatim>\<open>[{"toString": null}]\<close> pass the validation, then \<^verbatim>\<open>join\<close> throws; the response is
  500 and no message is sent.
\<close>

theorem send_email_object_recipient_counterexample:
  "mailCalls (snd (send_email (\<lambda>d. ''0'')
       \<lparr>GEMINI_API_KEY = Some ''key'', EMAIL_USER = Some ''me@x.com'', EMAIL_PASS = Some ''pw''\<rparr>
       (\<lambda>opts. Inr () :: string + unit)
       [(''summary'', Str ''notes''), (''recipients'', Arr [Obj [(''toString'', Null)]])])) = [] \<and>
   fst (send_email (\<lambda>d. ''0'')
       \<lparr>GEMINI_API_KEY = Some ''key'', EMAIL_USER = Some ''me@x.com'', EMAIL_PASS = Some ''pw''\<rparr>
       (\<lambda>opts. Inr () :: string + unit)
       [(''summary'', Str ''notes''), (''recipients'', Arr [Obj [(''toString'', Null)]])]) =
     \<lparr>statusCode = 500,
      json = Obj [(''error'',
        Str ''Failed to send email. Please check your email configuration.'')]\<rparr>"
  by (simp add: send_email_def getField_def env_truthy_def build_mailOptions_def
      send_email_catch_def)

end
